theory Spec2Isabelle
  imports Main "HOL-Library.AList"
begin

section \<open>Circuit cutting: the data model of \<^verbatim>\<open>pennylane/qcut.py\<close>\<close>

text \<open>
  An operator is a Python object. Neither \<^verbatim>\<open>WireCut\<close>, \<^verbatim>\<open>MeasureNode\<close>, \<^verbatim>\<open>PrepareNode\<close> nor
  their base class define \<^verbatim>\<open>__eq__\<close> or \<^verbatim>\<open>__hash__\<close>, so networkx tells nodes apart by object
  identity: the field \<open>oid\<close> is that identity, and every constructor call yields an object
  with an identity no live object has (\<open>fresh\<close> below is the allocator's next identity).
  \<open>wires\<close> is the operator's \<^verbatim>\<open>Wires\<close>, an ordered collection of distinct labels.
\<close>

type_synonym wire = nat

datatype op_kind = WireCut | MeasureNode | PrepareNode | Gate string

record operator =
  oid :: nat
  kind :: op_kind
  wires :: "wire list"

text \<open>A tape: \<^verbatim>\<open>tape.operations\<close> is the only attribute \<^verbatim>\<open>qcut.py\<close> reads.\<close>

record tape =
  operations :: "operator list"

text \<open>
  \<^verbatim>\<open>networkx.MultiDiGraph\<close>: the nodes in insertion order, and the edges in insertion order;
  parallel edges are separate entries of the list (networkx numbers them with a key). The
  attribute dictionary of an edge is empty (\<open>NoAttr\<close>), \<^verbatim>\<open>{wire: w}\<close> or
  \<^verbatim>\<open>{pair: (measure, prepare)}\<close>.
\<close>

datatype attr = NoAttr | WireAttr wire | PairAttr operator operator

record 'n multidigraph =
  nodes :: "'n list"
  edges :: "('n \<times> 'n \<times> attr) list"

text \<open>The nodes of a circuit graph are operators; those of a communication graph are
  fragments, named by their position in the sequence of fragments.\<close>

type_synonym circuit_graph = "operator multidigraph"

type_synonym communication_graph = "nat multidigraph"

datatype error =
    NetworkXError
  | RuntimeError
  | KeyError
  | InfeasibleCutError
  | UnknownMethodError
  | CyclicFragmentError
  | ShapeMismatchError
  | ConfigurationBudgetExceededError

subsection \<open>The networkx operations that \<^verbatim>\<open>qcut.py\<close> calls\<close>

definition empty_graph :: "'n multidigraph" where
  "empty_graph = \<lparr>nodes = [], edges = []\<rparr>"

definition add_node :: "'n \<Rightarrow> 'n multidigraph \<Rightarrow> 'n multidigraph" where
  "add_node n g = (if n \<in> set (nodes g) then g else g\<lparr>nodes := nodes g @ [n]\<rparr>)"

definition add_edge :: "'n \<Rightarrow> 'n \<Rightarrow> attr \<Rightarrow> 'n multidigraph \<Rightarrow> 'n multidigraph" where
  "add_edge u v a g = (let g' = add_node v (add_node u g) in g'\<lparr>edges := edges g' @ [(u, v, a)]\<rparr>)"

text \<open>The keys of a dictionary, in the order of their first insertion.\<close>

definition first_seen :: "'a list \<Rightarrow> 'a list" where
  "first_seen xs = rev (remdups (rev xs))"

text \<open>
  \<^verbatim>\<open>graph.predecessors(n)\<close> and \<^verbatim>\<open>graph.successors(n)\<close> iterate the keys of \<^verbatim>\<open>_pred[n]\<close> and
  \<^verbatim>\<open>_succ[n]\<close>: every neighbour once, in the order in which its first edge was added.
\<close>

definition pred_nodes :: "'n multidigraph \<Rightarrow> 'n \<Rightarrow> 'n list" where
  "pred_nodes g n = first_seen (map fst (filter (\<lambda>(u, v, a). v = n) (edges g)))"

definition succ_nodes :: "'n multidigraph \<Rightarrow> 'n \<Rightarrow> 'n list" where
  "succ_nodes g n = first_seen (map (\<lambda>(u, v, a). v) (filter (\<lambda>(u, v, a). u = n) (edges g)))"

definition remove_node :: "'n \<Rightarrow> 'n multidigraph \<Rightarrow> 'n multidigraph" where
  "remove_node n g =
     \<lparr>nodes = removeAll n (nodes g),
      edges = filter (\<lambda>(u, v, a). u \<noteq> n \<and> v \<noteq> n) (edges g)\<rparr>"

subsection \<open>\<^verbatim>\<open>remove_wire_cut_node\<close>\<close>

text \<open>
  The state the function works on: the graph it mutates in place, the allocator's next
  object identity, and its two local dictionaries (association lists in insertion order;
  \<open>AList.update\<close> overwrites in place and appends a new key, as a Python \<^verbatim>\<open>dict\<close> does).
\<close>

record frame =
  graph :: circuit_graph
  fresh :: nat
  measure_wires :: "(wire \<times> operator) list"
  prepare_wires :: "(wire \<times> operator) list"

definition new_op :: "op_kind \<Rightarrow> wire \<Rightarrow> nat \<Rightarrow> operator" where
  "new_op k w i = \<lparr>oid = i, kind = k, wires = [w]\<rparr>"

text \<open>Lines 85 to 93: one default pair of placeholders for every wire of the marker.\<close>

definition default_pair :: "wire \<Rightarrow> frame \<Rightarrow> frame" where
  "default_pair w s =
     (let meas = new_op MeasureNode w (fresh s);
          prep = new_op PrepareNode w (fresh s + 1)
      in \<lparr>graph = add_node prep (add_node meas (graph s)),
          fresh = fresh s + 2,
          measure_wires = AList.update w meas (measure_wires s),
          prepare_wires = AList.update w prep (prepare_wires s)\<rparr>)"

text \<open>Lines 96 to 101: the body of the loop over the wires of a predecessor \<open>p\<close>.\<close>

definition measure_after :: "operator \<Rightarrow> operator \<Rightarrow> wire \<Rightarrow> frame \<Rightarrow> frame" where
  "measure_after node p w s =
     (if w \<in> set (wires node) then
        (let op = new_op MeasureNode w (fresh s)
         in s\<lparr>graph := add_edge p op NoAttr (add_node op (graph s)),
              fresh := fresh s + 1,
              measure_wires := AList.update w op (measure_wires s)\<rparr>)
      else s)"

text \<open>Lines 104 to 109: the body of the loop over the wires of a successor \<open>s'\<close>.\<close>

definition prepare_before :: "operator \<Rightarrow> operator \<Rightarrow> wire \<Rightarrow> frame \<Rightarrow> frame" where
  "prepare_before node s' w s =
     (if w \<in> set (wires node) then
        (let op = new_op PrepareNode w (fresh s)
         in s\<lparr>graph := add_edge op s' NoAttr (add_node op (graph s)),
              fresh := fresh s + 1,
              prepare_wires := AList.update w op (prepare_wires s)\<rparr>)
      else s)"

text \<open>Lines 111 to 114: the pair edges, one for every key of \<^verbatim>\<open>measure_wires\<close>.\<close>

fun pair_up :: "wire list \<Rightarrow> frame \<Rightarrow> error + frame" where
  "pair_up [] s = Inr s"
| "pair_up (w # ws) s =
     (case map_of (measure_wires s) w of
        None \<Rightarrow> Inl KeyError
      | Some meas \<Rightarrow>
          (case map_of (prepare_wires s) w of
             None \<Rightarrow> Inl KeyError
           | Some prep \<Rightarrow>
               pair_up ws (s\<lparr>graph := add_edge meas prep (PairAttr meas prep) (graph s)\<rparr>)))"

text \<open>
  The whole function, on a graph \<open>g\<close> with allocator state \<open>heap\<close>; it returns the mutated graph
  and the allocator state. \<^verbatim>\<open>graph.predecessors(node)\<close> raises when the node is not in the
  graph. Both iterators are taken before the node is removed and read afterwards: they run
  over the marker's own adjacency dictionaries, which \<^verbatim>\<open>remove_node\<close> leaves as they were
  unless the marker has an edge to itself, in which case the predecessor dictionary shrinks
  and reading its iterator raises \<^verbatim>\<open>RuntimeError\<close>.
\<close>

definition remove_wire_cut_node ::
  "operator \<Rightarrow> circuit_graph \<times> nat \<Rightarrow> error + circuit_graph \<times> nat" where
  "remove_wire_cut_node node gh =
     (let g = fst gh; heap = snd gh in
      if node \<notin> set (nodes g) then Inl NetworkXError
      else
        (let predecessors = pred_nodes g node;
             successors = succ_nodes g node;
             s0 = \<lparr>graph = remove_node node g, fresh = heap,
                   measure_wires = [], prepare_wires = []\<rparr>;
             s1 = fold default_pair (wires node) s0
         in if node \<in> set predecessors then Inl RuntimeError
            else
              (let s2 = fold (\<lambda>p. fold (measure_after node p) (wires p)) predecessors s1;
                   s3 = fold (\<lambda>s'. fold (prepare_before node s') (wires s')) successors s2
               in case pair_up (map fst (measure_wires s3)) s3 of
                    Inl e \<Rightarrow> Inl e
                  | Inr s4 \<Rightarrow> Inr (graph s4, fresh s4))))"

subsection \<open>\<^verbatim>\<open>tape_to_graph\<close>\<close>

text \<open>
  Modelled from the spec: the body of \<^verbatim>\<open>tape_to_graph\<close> is not in the source. The Graph
  Builder makes every operation exactly one node and, for each channel of an operation, adds
  an edge from the most recent prior operation touching that channel, in program order; the
  edge is annotated with the channel.
\<close>

definition link_wire ::
  "operator \<Rightarrow> wire \<Rightarrow> circuit_graph \<times> (wire \<times> operator) list \<Rightarrow> circuit_graph \<times> (wire \<times> operator) list" where
  "link_wire op w gl =
     (let g = fst gl; latest = snd gl
      in ((case map_of latest w of
             None \<Rightarrow> g
           | Some parent \<Rightarrow> add_edge parent op (WireAttr w) g),
          AList.update w op latest))"

definition add_operator_node ::
  "operator \<Rightarrow> circuit_graph \<times> (wire \<times> operator) list \<Rightarrow> circuit_graph \<times> (wire \<times> operator) list" where
  "add_operator_node op gl = fold (link_wire op) (wires op) (add_node op (fst gl), snd gl)"

definition tape_to_graph :: "tape \<Rightarrow> circuit_graph" where
  "tape_to_graph t = fst (fold add_operator_node (operations t) (empty_graph, []))"

subsection \<open>\<^verbatim>\<open>fragment_graph\<close>\<close>

text \<open>
  Modelled from the spec: the body of \<^verbatim>\<open>fragment_graph\<close> is not in the source. The
  Fragmenter partitions the resolved graph into weakly-connected components. A cut edge is
  a fragment boundary, not an intra-fragment edge, so connectivity runs over the other
  edges (the spec's section on the Fragmenter also speaks of cut edges as edges for
  connectivity; read so, no cut would separate two fragments, and the reading of its data
  model and of the Cut Resolver is taken). Fragments are ordered by the insertion order of their first node. The
  communication graph has the fragments as nodes and, for every cut edge, an edge from the
  fragment of its MeasureNode to the fragment of its PrepareNode that carries the pair.
\<close>

definition is_pair :: "attr \<Rightarrow> bool" where
  "is_pair a = (case a of PairAttr m p \<Rightarrow> True | _ \<Rightarrow> False)"

definition touches :: "circuit_graph \<Rightarrow> operator list \<Rightarrow> operator \<Rightarrow> bool" where
  "touches g c n =
     (\<exists>(u, v, a) \<in> set (edges g). \<not> is_pair a \<and> ((u \<in> set c \<and> v = n) \<or> (v \<in> set c \<and> u = n)))"

definition grow :: "circuit_graph \<Rightarrow> operator list \<Rightarrow> operator list" where
  "grow g c = filter (\<lambda>n. n \<in> set c \<or> touches g c n) (nodes g)"

definition component :: "circuit_graph \<Rightarrow> operator \<Rightarrow> operator list" where
  "component g n = (grow g ^^ length (nodes g)) [n]"

fun components :: "circuit_graph \<Rightarrow> operator list \<Rightarrow> operator list list" where
  "components g [] = []"
| "components g (n # ns) =
     (let c = component g n in c # components g (filter (\<lambda>m. m \<notin> set c) ns))"

definition subgraph :: "circuit_graph \<Rightarrow> operator list \<Rightarrow> circuit_graph" where
  "subgraph g c =
     \<lparr>nodes = filter (\<lambda>n. n \<in> set c) (nodes g),
      edges = filter (\<lambda>(u, v, a). \<not> is_pair a \<and> u \<in> set c \<and> v \<in> set c) (edges g)\<rparr>"

definition fragment_of :: "operator list list \<Rightarrow> operator \<Rightarrow> nat" where
  "fragment_of cs n = length (takeWhile (\<lambda>c. n \<notin> set c) cs)"

definition fragment_graph :: "circuit_graph \<Rightarrow> circuit_graph list \<times> communication_graph" where
  "fragment_graph g =
     (let cs = components g (nodes g)
      in (map (subgraph g) cs,
          \<lparr>nodes = [0..<length cs],
           edges = map (\<lambda>(u, v, a). (fragment_of cs u, fragment_of cs v, a))
                     (filter (\<lambda>(u, v, a). is_pair a) (edges g))\<rparr>))"

subsection \<open>\<^verbatim>\<open>graph_to_tape\<close>\<close>

text \<open>
  Modelled from the spec: the body of \<^verbatim>\<open>graph_to_tape\<close> is not in the source. The Program
  Reconstructor returns a topological linearization of the fragment's nodes, cut edges
  excluded, and fails with \<^verbatim>\<open>CyclicFragmentError\<close> when the fragment is not acyclic. Any
  valid order is allowed; this one continues with the earliest inserted node whose
  predecessors are all placed.
\<close>

definition ready :: "circuit_graph \<Rightarrow> operator list \<Rightarrow> operator \<Rightarrow> bool" where
  "ready g rest n = (\<not> list_ex (\<lambda>(u, v, a). \<not> is_pair a \<and> v = n \<and> u \<in> set rest) (edges g))"

function linearize :: "circuit_graph \<Rightarrow> operator list \<Rightarrow> error + operator list" where
  "linearize g rest =
     (if rest = [] then Inr []
      else (case filter (ready g rest) rest of
              [] \<Rightarrow> Inl CyclicFragmentError
            | n # _ \<Rightarrow>
                (case linearize g (removeAll n rest) of
                   Inl e \<Rightarrow> Inl e
                 | Inr ns \<Rightarrow> Inr (n # ns))))"
  by pat_completeness auto
termination
proof (relation "measure (\<lambda>(g, rest). length rest)")
  fix g :: circuit_graph and rest :: "operator list" and n ns
  assume "filter (ready g rest) rest = n # ns"
  then have "n \<in> set (filter (ready g rest) rest)" by simp
  then have "n \<in> set rest" by simp
  then show "((g, removeAll n rest), (g, rest)) \<in> measure (\<lambda>(g, rest). length rest)"
    by (simp add: length_removeAll_less)
qed simp

declare linearize.simps [simp del]

definition graph_to_tape :: "circuit_graph \<Rightarrow> error + tape" where
  "graph_to_tape g =
     (case linearize g (nodes g) of Inl e \<Rightarrow> Inl e | Inr ns \<Rightarrow> Inr \<lparr>operations = ns\<rparr>)"

subsection \<open>\<^verbatim>\<open>expand_fragment_tapes\<close>\<close>

text \<open>
  Modelled from the spec: the body of \<^verbatim>\<open>expand_fragment_tapes\<close> is not in the source. The
  Configuration Expander takes a fragment Program and the basis alphabet and returns one
  Program for every assignment of a basis choice to every placeholder, each identical to
  the input except that every placeholder is resolved to the operation determined by its
  choice. The alphabet and the resolved operations are implementation-defined: they are
  the parameters \<open>alphabet\<close> and \<open>resolve\<close>. The order is that of a mixed-radix counter over
  the placeholders in program order, the last placeholder counting fastest.
\<close>

definition is_placeholder :: "operator \<Rightarrow> bool" where
  "is_placeholder op = (kind op = MeasureNode \<or> kind op = PrepareNode)"

fun expand_ops :: "'b list \<Rightarrow> ('b \<Rightarrow> operator \<Rightarrow> operator) \<Rightarrow> operator list \<Rightarrow> operator list list" where
  "expand_ops alphabet resolve [] = [[]]"
| "expand_ops alphabet resolve (op # ops) =
     (if is_placeholder op
      then concat (map (\<lambda>b. map ((#) (resolve b op)) (expand_ops alphabet resolve ops)) alphabet)
      else map ((#) op) (expand_ops alphabet resolve ops))"

definition expand_fragment_tapes :: "'b list \<Rightarrow> ('b \<Rightarrow> operator \<Rightarrow> operator) \<Rightarrow> tape \<Rightarrow> tape list" where
  "expand_fragment_tapes alphabet resolve t =
     map (\<lambda>ops. \<lparr>operations = ops\<rparr>) (expand_ops alphabet resolve (operations t))"

text \<open>
  Modelled from the spec: the configuration at position \<open>i\<close> of that enumeration. The digits
  of \<open>i\<close> in base \<open>length alphabet\<close>, the most significant first, are the basis choices of the
  placeholders in program order.
\<close>

fun configuration_at ::
  "'b list \<Rightarrow> ('b \<Rightarrow> operator \<Rightarrow> operator) \<Rightarrow> operator list \<Rightarrow> nat \<Rightarrow> operator list" where
  "configuration_at alphabet resolve [] i = []"
| "configuration_at alphabet resolve (op # ops) i =
     (if is_placeholder op
      then (let m = length alphabet ^ length (filter is_placeholder ops)
            in resolve (alphabet ! (i div m)) op # configuration_at alphabet resolve ops (i mod m))
      else op # configuration_at alphabet resolve ops i)"

subsection \<open>\<^verbatim>\<open>cut_circuit\<close>\<close>

text \<open>
  The functions whose body the source leaves open are parameters of the transform: any of
  them may raise. \<open>place\<close> is \<^verbatim>\<open>find_and_place_cuts\<close>, which mutates the graph and may
  allocate; the others return a value.
\<close>

record ('m, 'k) pipeline =
  to_graph :: "tape \<Rightarrow> error + circuit_graph"
  place :: "circuit_graph \<times> nat \<Rightarrow> 'm \<Rightarrow> 'k \<Rightarrow> error + circuit_graph \<times> nat"
  fragment :: "circuit_graph \<Rightarrow> error + circuit_graph list \<times> communication_graph"
  to_tape :: "circuit_graph \<Rightarrow> error + tape"
  expand :: "tape \<Rightarrow> error + tape list"

text \<open>
  \<^verbatim>\<open>partial(contract, shapes=shapes, communication_graph=communication_graph)\<close>: the object
  holds the two keyword arguments; calling it with the results calls \<^verbatim>\<open>contract\<close>.
\<close>

record partial_contract =
  shapes :: "nat list"
  communication_graph :: communication_graph

definition call_partial ::
  "('r list \<Rightarrow> nat list \<Rightarrow> communication_graph \<Rightarrow> 'v) \<Rightarrow> partial_contract \<Rightarrow> 'r list \<Rightarrow> 'v" where
  "call_partial contract p results = contract results (shapes p) (communication_graph p)"

text \<open>A list comprehension over a function that may raise stops at the first error.\<close>

fun map_result :: "('a \<Rightarrow> error + 'b) \<Rightarrow> 'a list \<Rightarrow> error + 'b list" where
  "map_result f [] = Inr []"
| "map_result f (x # xs) =
     (case f x of
        Inl e \<Rightarrow> Inl e
      | Inr y \<Rightarrow> (case map_result f xs of Inl e \<Rightarrow> Inl e | Inr ys \<Rightarrow> Inr (y # ys)))"

text \<open>Lines 52 to 54: the loop over \<^verbatim>\<open>tape.operations\<close>.\<close>

fun resolve_cuts :: "operator list \<Rightarrow> circuit_graph \<times> nat \<Rightarrow> error + circuit_graph \<times> nat" where
  "resolve_cuts [] gh = Inr gh"
| "resolve_cuts (op # ops) gh =
     (if kind op = WireCut
      then (case remove_wire_cut_node op gh of Inl e \<Rightarrow> Inl e | Inr gh' \<Rightarrow> resolve_cuts ops gh')
      else resolve_cuts ops gh)"

text \<open>
  The transform: \<open>method\<close> is \<^verbatim>\<open>None\<close> or the caller's method, \<open>kwargs\<close> the caller's keyword
  arguments, \<open>heap\<close> the allocator's next identity. The \<^verbatim>\<open>batch_transform\<close> decorator hands the
  returned pair on as it is.
\<close>

definition cut_circuit ::
  "('m, 'k) pipeline \<Rightarrow> tape \<Rightarrow> 'm option \<Rightarrow> 'k \<Rightarrow> nat \<Rightarrow> error + tape list \<times> partial_contract" where
  "cut_circuit P tp method kwargs heap =
     (case to_graph P tp of
        Inl e \<Rightarrow> Inl e
      | Inr g \<Rightarrow>
     (case resolve_cuts (operations tp) (g, heap) of
        Inl e \<Rightarrow> Inl e
      | Inr gh \<Rightarrow>
     (case (case method of None \<Rightarrow> Inr gh | Some m \<Rightarrow> place P gh m kwargs) of
        Inl e \<Rightarrow> Inl e
      | Inr gh' \<Rightarrow>
     (case fragment P (fst gh') of
        Inl e \<Rightarrow> Inl e
      | Inr (fragments, cg) \<Rightarrow>
     (case map_result (to_tape P) fragments of
        Inl e \<Rightarrow> Inl e
      | Inr fragment_tapes \<Rightarrow>
     (case map_result (expand P) fragment_tapes of
        Inl e \<Rightarrow> Inl e
      | Inr configurations \<Rightarrow>
          Inr (concat configurations,
               \<lparr>shapes = map length configurations, communication_graph = cg\<rparr>)))))))"

text \<open>
  The pipeline whose open stages are the models above, over a basis alphabet; \<open>place\<close> is
  never reached when no method is given.
\<close>

definition resolve_basis :: "string \<Rightarrow> operator \<Rightarrow> operator" where
  "resolve_basis b op =
     op\<lparr>kind := Gate ((if kind op = MeasureNode then ''Measure'' else ''Prepare'') @ b)\<rparr>"

definition spec_pipeline :: "string list \<Rightarrow> (unit, (string \<times> nat) list) pipeline" where
  "spec_pipeline alphabet =
     \<lparr>to_graph = (\<lambda>t. Inr (tape_to_graph t)),
      place = (\<lambda>gh m kwargs. Inr gh),
      fragment = (\<lambda>g. Inr (fragment_graph g)),
      to_tape = graph_to_tape,
      expand = (\<lambda>t. Inr (expand_fragment_tapes alphabet resolve_basis t))\<rparr>"

subsection \<open>Placeholders, pairs and splices\<close>

text \<open>The placeholders of a graph, and the cut edges that join a placeholder to a
  counterpart of the other kind on the same channel.\<close>

definition placeholders :: "circuit_graph \<Rightarrow> operator list" where
  "placeholders g = filter is_placeholder (nodes g)"

definition partners :: "circuit_graph \<Rightarrow> operator \<Rightarrow> operator list" where
  "partners g n =
     (if kind n = MeasureNode
      then map (\<lambda>(m, q, a). q)
             (filter (\<lambda>(m, q, a). m = n \<and> a = PairAttr m q \<and> kind q = PrepareNode \<and> wires q = wires n)
                (edges g))
      else map (\<lambda>(m, q, a). m)
             (filter (\<lambda>(m, q, a). q = n \<and> a = PairAttr m q \<and> kind m = MeasureNode \<and> wires m = wires n)
                (edges g)))"

definition unpaired :: "circuit_graph \<Rightarrow> operator list" where
  "unpaired g = filter (\<lambda>n. length (partners g n) \<noteq> 1) (placeholders g)"

text \<open>The marker's predecessors and successors on a channel, read off the channel
  annotation of its edges.\<close>

definition pred_on :: "circuit_graph \<Rightarrow> operator \<Rightarrow> wire \<Rightarrow> operator list" where
  "pred_on g node w = map fst (filter (\<lambda>(u, v, a). v = node \<and> a = WireAttr w) (edges g))"

definition succ_on :: "circuit_graph \<Rightarrow> operator \<Rightarrow> wire \<Rightarrow> operator list" where
  "succ_on g node w =
     map (\<lambda>(u, v, a). v) (filter (\<lambda>(u, v, a). u = node \<and> a = WireAttr w) (edges g))"

definition has_edge :: "'n multidigraph \<Rightarrow> 'n \<Rightarrow> 'n \<Rightarrow> bool" where
  "has_edge g u v = list_ex (\<lambda>(x, y, a). x = u \<and> y = v) (edges g)"

text \<open>
  Channel \<open>w\<close> of the marker \<open>node\<close> of \<open>g\<close> is spliced in \<open>g'\<close>: some cut edge of \<open>g'\<close> joins a
  MeasureNode and a PrepareNode on \<open>w\<close>, the MeasureNode has an edge from the marker's
  predecessor on \<open>w\<close> and the PrepareNode an edge to the marker's successor on \<open>w\<close>.
\<close>

definition spliced :: "circuit_graph \<Rightarrow> operator \<Rightarrow> circuit_graph \<Rightarrow> wire \<Rightarrow> bool" where
  "spliced g node g' w =
     list_ex (\<lambda>(m, q, a). a = PairAttr m q \<and>
                kind m = MeasureNode \<and> wires m = [w] \<and> kind q = PrepareNode \<and> wires q = [w] \<and>
                list_all (\<lambda>p. has_edge g' p m) (pred_on g node w) \<and>
                list_all (\<lambda>s. has_edge g' q s) (succ_on g node w))
       (edges g')"

subsection \<open>Example programs\<close>

text \<open>Names for the operators of the examples: a gate, and the placeholder that
  \<^verbatim>\<open>remove_wire_cut_node\<close> creates with identity \<open>i\<close> on channel \<open>w\<close>.\<close>

abbreviation gate :: "nat \<Rightarrow> string \<Rightarrow> wire list \<Rightarrow> operator" where
  "gate i name ws \<equiv> \<lparr>oid = i, kind = Gate name, wires = ws\<rparr>"

abbreviation meas_node :: "nat \<Rightarrow> wire \<Rightarrow> operator" where
  "meas_node i w \<equiv> \<lparr>oid = i, kind = MeasureNode, wires = [w]\<rparr>"

abbreviation prep_node :: "nat \<Rightarrow> wire \<Rightarrow> operator" where
  "prep_node i w \<equiv> \<lparr>oid = i, kind = PrepareNode, wires = [w]\<rparr>"

text \<open>A chain of two operations on one channel, cut once between them.\<close>

abbreviation chain_cut :: operator where
  "chain_cut \<equiv> \<lparr>oid = 1, kind = WireCut, wires = [0]\<rparr>"

abbreviation chain_tape :: tape where
  "chain_tape \<equiv> \<lparr>operations = [gate 0 ''RX'' [0], chain_cut, gate 2 ''RY'' [0]]\<rparr>"

text \<open>Two channels cut together; after the cut, channel 1 passes a rotation before the
  two channels meet again.\<close>

abbreviation both_cut :: operator where
  "both_cut \<equiv> \<lparr>oid = 1, kind = WireCut, wires = [0, 1]\<rparr>"

abbreviation both_tape :: tape where
  "both_tape \<equiv>
     \<lparr>operations = [gate 0 ''CNOT'' [0, 1], both_cut, gate 2 ''RX'' [1], gate 3 ''CNOT'' [0, 1]]\<rparr>"

text \<open>The chain after its cut is resolved, its fragments, and what the transform returns
  for it when the open stages are the models above and the alphabet is \<open>Z, X\<close>.\<close>

abbreviation chain_cut_graph :: circuit_graph where
  "chain_cut_graph \<equiv>
     \<lparr>nodes = [gate 0 ''RX'' [0], gate 2 ''RY'' [0], meas_node 3 0, prep_node 4 0,
               meas_node 5 0, prep_node 6 0],
      edges = [(gate 0 ''RX'' [0], meas_node 5 0, NoAttr),
               (prep_node 6 0, gate 2 ''RY'' [0], NoAttr),
               (meas_node 5 0, prep_node 6 0, PairAttr (meas_node 5 0) (prep_node 6 0))]\<rparr>"

abbreviation chain_fragments :: "circuit_graph list" where
  "chain_fragments \<equiv>
     [\<lparr>nodes = [gate 0 ''RX'' [0], meas_node 5 0],
       edges = [(gate 0 ''RX'' [0], meas_node 5 0, NoAttr)]\<rparr>,
      \<lparr>nodes = [gate 2 ''RY'' [0], prep_node 6 0],
       edges = [(prep_node 6 0, gate 2 ''RY'' [0], NoAttr)]\<rparr>,
      \<lparr>nodes = [meas_node 3 0], edges = []\<rparr>,
      \<lparr>nodes = [prep_node 4 0], edges = []\<rparr>]"

abbreviation chain_fragment_tapes :: "tape list" where
  "chain_fragment_tapes \<equiv>
     [\<lparr>operations = [gate 0 ''RX'' [0], meas_node 5 0]\<rparr>,
      \<lparr>operations = [prep_node 6 0, gate 2 ''RY'' [0]]\<rparr>,
      \<lparr>operations = [meas_node 3 0]\<rparr>,
      \<lparr>operations = [prep_node 4 0]\<rparr>]"

abbreviation chain_configurations :: "tape list list" where
  "chain_configurations \<equiv>
     [[\<lparr>operations = [gate 0 ''RX'' [0], gate 5 ''MeasureZ'' [0]]\<rparr>,
       \<lparr>operations = [gate 0 ''RX'' [0], gate 5 ''MeasureX'' [0]]\<rparr>],
      [\<lparr>operations = [gate 6 ''PrepareZ'' [0], gate 2 ''RY'' [0]]\<rparr>,
       \<lparr>operations = [gate 6 ''PrepareX'' [0], gate 2 ''RY'' [0]]\<rparr>],
      [\<lparr>operations = [gate 3 ''MeasureZ'' [0]]\<rparr>, \<lparr>operations = [gate 3 ''MeasureX'' [0]]\<rparr>],
      [\<lparr>operations = [gate 4 ''PrepareZ'' [0]]\<rparr>, \<lparr>operations = [gate 4 ''PrepareX'' [0]]\<rparr>]]"


abbreviation chain_communication :: communication_graph where
  "chain_communication \<equiv>
     \<lparr>nodes = [0, 1, 2, 3], edges = [(0, 1, PairAttr (meas_node 5 0) (prep_node 6 0))]\<rparr>"



section \<open>The Configuration Expander\<close>

lemma nth_concat_blocks:
  assumes "\<And>x. x \<in> set xs \<Longrightarrow> length (f x) = m" and "i < length xs * m"
  shows "concat (map f xs) ! i = f (xs ! (i div m)) ! (i mod m)"
  using assms
proof (induction xs arbitrary: i)
  case Nil
  then show ?case by simp
next
  case (Cons x xs)
  have len: "length (f x) = m" using Cons.prems(1) by simp
  show ?case
  proof (cases "i < m")
    case True
    then show ?thesis by (simp add: nth_append len)
  next
    case False
    then have ge: "m \<le> i" by simp
    from Cons.prems(2) have m: "0 < m" by (cases m) auto
    from ge Cons.prems(2) have less: "i - m < length xs * m" by simp
    have ih: "concat (map f xs) ! (i - m) = f (xs ! ((i - m) div m)) ! ((i - m) mod m)"
      using Cons.prems(1) less by (intro Cons.IH) auto
    have d: "i div m = Suc ((i - m) div m)"
      using ge m by (simp add: le_div_geq)
    have r: "(i - m) mod m = i mod m"
      using ge by (simp add: le_mod_geq)
    show ?thesis
      using False ih by (simp add: nth_append len d r)
  qed
qed

lemma length_expand_ops:
  "length (expand_ops alphabet resolve ops)
     = length alphabet ^ length (filter is_placeholder ops)"
proof (induction ops)
  case Nil
  then show ?case by simp
next
  case (Cons op ops)
  then show ?case
    by (simp add: length_concat comp_def sum_list_triv)
qed

lemma nth_expand_ops:
  "i < length alphabet ^ length (filter is_placeholder ops) \<Longrightarrow>
   expand_ops alphabet resolve ops ! i = configuration_at alphabet resolve ops i"
proof (induction ops arbitrary: i)
  case Nil
  then show ?case by simp
next
  case (Cons op ops)
  let ?m = "length alphabet ^ length (filter is_placeholder ops)"
  show ?case
  proof (cases "is_placeholder op")
    case False
    with Cons show ?thesis by (simp add: length_expand_ops)
  next
    case True
    with Cons.prems have i: "i < length alphabet * ?m" by simp
    then have m: "0 < ?m" by (cases ?m) auto
    from i have q: "i div ?m < length alphabet"
      by (simp add: less_mult_imp_div_less)
    from m have r: "i mod ?m < ?m" by simp
    have "expand_ops alphabet resolve (op # ops) ! i
        = map ((#) (resolve (alphabet ! (i div ?m)) op)) (expand_ops alphabet resolve ops)
            ! (i mod ?m)"
      using True i
      by (simp add: nth_concat_blocks [where m = ?m] length_expand_ops)
    also have "\<dots> = resolve (alphabet ! (i div ?m)) op # expand_ops alphabet resolve ops ! (i mod ?m)"
      using r by (simp add: length_expand_ops)
    also have "\<dots> = configuration_at alphabet resolve (op # ops) i"
      using True Cons.IH [OF r] by (simp add: Let_def)
    finally show ?thesis .
  qed
qed

text \<open>
  C6. A fragment Program with \<open>p\<close> placeholders, expanded over a basis alphabet of size \<open>a\<close>,
  gives exactly \<open>a ^ p\<close> Programs, and the Program at position \<open>i\<close> is the configuration
  whose basis choices are the digits of \<open>i\<close>: the sequence and its order depend on the
  alphabet and the fragment Program alone, so expanding the same Program again gives the
  same sequence in the same order.
\<close>

theorem expand_fragment_tapes_count:
  "length (expand_fragment_tapes alphabet resolve t)
     = length alphabet ^ length (filter is_placeholder (operations t)) \<and>
   (\<forall>i < length alphabet ^ length (filter is_placeholder (operations t)).
      expand_fragment_tapes alphabet resolve t ! i
        = \<lparr>operations = configuration_at alphabet resolve (operations t) i\<rparr>)"
  by (simp add: expand_fragment_tapes_def length_expand_ops nth_expand_ops)

theorem expand_fragment_tapes_count_witness:
  "length (expand_fragment_tapes [''Z'', ''X''] resolve_basis
             \<lparr>operations = [prep_node 6 0, gate 2 ''RY'' [0]]\<rparr>) = 2 \<and>
   expand_fragment_tapes [''Z'', ''X''] resolve_basis
       \<lparr>operations = [prep_node 6 0, gate 2 ''RY'' [0]]\<rparr> ! 1
     = \<lparr>operations = [gate 6 ''PrepareX'' [0], gate 2 ''RY'' [0]]\<rparr>"
  using expand_fragment_tapes_count
    [of "[''Z'', ''X'']" resolve_basis "\<lparr>operations = [prep_node 6 0, gate 2 ''RY'' [0]]\<rparr>"]
  by (simp add: is_placeholder_def resolve_basis_def)

section \<open>The Cut Resolver on the example programs\<close>

lemma chain_graph:
  "tape_to_graph chain_tape =
     \<lparr>nodes = [gate 0 ''RX'' [0], chain_cut, gate 2 ''RY'' [0]],
      edges = [(gate 0 ''RX'' [0], chain_cut, WireAttr 0),
               (chain_cut, gate 2 ''RY'' [0], WireAttr 0)]\<rparr>"
  by code_simp

lemma chain_resolved:
  "remove_wire_cut_node chain_cut (tape_to_graph chain_tape, 3) =
     Inr (\<lparr>nodes = [gate 0 ''RX'' [0], gate 2 ''RY'' [0], meas_node 3 0, prep_node 4 0,
                   meas_node 5 0, prep_node 6 0],
           edges = [(gate 0 ''RX'' [0], meas_node 5 0, NoAttr),
                    (prep_node 6 0, gate 2 ''RY'' [0], NoAttr),
                    (meas_node 5 0, prep_node 6 0, PairAttr (meas_node 5 0) (prep_node 6 0))]\<rparr>,
          7)"
  by code_simp

text \<open>
  C3. The chain \<^verbatim>\<open>RX, WireCut, RY\<close> on one channel has three nodes, one of them the marker.
  Resolving its single-channel cut leaves six nodes: the two operations, the default pair
  of lines 86 to 90 (identities 3 and 4, without any edge) and the pair of lines 98 and 106
  (identities 5 and 6). The node count is four above the count without the marker, not two.
\<close>

theorem chain_cut_node_count:
  "tape_to_graph chain_tape =
     \<lparr>nodes = [gate 0 ''RX'' [0], chain_cut, gate 2 ''RY'' [0]],
      edges = [(gate 0 ''RX'' [0], chain_cut, WireAttr 0),
               (chain_cut, gate 2 ''RY'' [0], WireAttr 0)]\<rparr> \<and>
   remove_wire_cut_node chain_cut (tape_to_graph chain_tape, 3) =
     Inr (\<lparr>nodes = [gate 0 ''RX'' [0], gate 2 ''RY'' [0], meas_node 3 0, prep_node 4 0,
                   meas_node 5 0, prep_node 6 0],
           edges = [(gate 0 ''RX'' [0], meas_node 5 0, NoAttr),
                    (prep_node 6 0, gate 2 ''RY'' [0], NoAttr),
                    (meas_node 5 0, prep_node 6 0, PairAttr (meas_node 5 0) (prep_node 6 0))]\<rparr>,
          7) \<and>
   length (nodes (tape_to_graph chain_tape)) = 3 \<and>
   map_sum id (\<lambda>(g', h). length (nodes g'))
     (remove_wire_cut_node chain_cut (tape_to_graph chain_tape, 3)) = Inr 6"
  by (simp only: chain_resolved, simp only: chain_graph) simp

text \<open>
  C4. After the only marker of the chain is resolved, the MeasureNode with identity 3 and
  the PrepareNode with identity 4 are nodes of the graph and no cut edge touches them.
\<close>

theorem chain_cut_unpaired:
  "map_sum id (\<lambda>(g', h). unpaired g')
     (remove_wire_cut_node chain_cut (tape_to_graph chain_tape, 3))
     = Inr [meas_node 3 0, prep_node 4 0]"
  by (simp only: chain_resolved)
    (simp add: unpaired_def placeholders_def partners_def is_placeholder_def)

lemma both_graph:
  "tape_to_graph both_tape =
     \<lparr>nodes = [gate 0 ''CNOT'' [0, 1], both_cut, gate 2 ''RX'' [1], gate 3 ''CNOT'' [0, 1]],
      edges = [(gate 0 ''CNOT'' [0, 1], both_cut, WireAttr 0),
               (gate 0 ''CNOT'' [0, 1], both_cut, WireAttr 1),
               (both_cut, gate 2 ''RX'' [1], WireAttr 1),
               (both_cut, gate 3 ''CNOT'' [0, 1], WireAttr 0),
               (gate 2 ''RX'' [1], gate 3 ''CNOT'' [0, 1], WireAttr 1)]\<rparr>"
  by code_simp

lemma both_resolved:
  "remove_wire_cut_node both_cut (tape_to_graph both_tape, 4) =
     Inr (\<lparr>nodes = [gate 0 ''CNOT'' [0, 1], gate 2 ''RX'' [1], gate 3 ''CNOT'' [0, 1],
                   meas_node 4 0, prep_node 5 0, meas_node 6 1, prep_node 7 1,
                   meas_node 8 0, meas_node 9 1, prep_node 10 1, prep_node 11 0, prep_node 12 1],
           edges = [(gate 2 ''RX'' [1], gate 3 ''CNOT'' [0, 1], WireAttr 1),
                    (gate 0 ''CNOT'' [0, 1], meas_node 8 0, NoAttr),
                    (gate 0 ''CNOT'' [0, 1], meas_node 9 1, NoAttr),
                    (prep_node 10 1, gate 2 ''RX'' [1], NoAttr),
                    (prep_node 11 0, gate 3 ''CNOT'' [0, 1], NoAttr),
                    (prep_node 12 1, gate 3 ''CNOT'' [0, 1], NoAttr),
                    (meas_node 8 0, prep_node 11 0, PairAttr (meas_node 8 0) (prep_node 11 0)),
                    (meas_node 9 1, prep_node 12 1, PairAttr (meas_node 9 1) (prep_node 12 1))]\<rparr>,
          13)"
  by code_simp

text \<open>
  C5. In \<^verbatim>\<open>CNOT[0,1], WireCut[0,1], RX[1], CNOT[0,1]\<close> the marker's successor on channel 1 is
  the rotation. After the marker is resolved, the only cut edge on channel 1 joins the
  MeasureNode 9 to the PrepareNode 12, which has its edge to the second \<^verbatim>\<open>CNOT\<close>; the
  PrepareNode 10 that has the edge to the rotation is on no cut edge. Channel 0 is spliced
  as the claim says, channel 1 is not.
\<close>

theorem both_cut_not_spliced:
  "succ_on (tape_to_graph both_tape) both_cut 1 = [gate 2 ''RX'' [1]] \<and>
   remove_wire_cut_node both_cut (tape_to_graph both_tape, 4) =
     Inr (\<lparr>nodes = [gate 0 ''CNOT'' [0, 1], gate 2 ''RX'' [1], gate 3 ''CNOT'' [0, 1],
                   meas_node 4 0, prep_node 5 0, meas_node 6 1, prep_node 7 1,
                   meas_node 8 0, meas_node 9 1, prep_node 10 1, prep_node 11 0, prep_node 12 1],
           edges = [(gate 2 ''RX'' [1], gate 3 ''CNOT'' [0, 1], WireAttr 1),
                    (gate 0 ''CNOT'' [0, 1], meas_node 8 0, NoAttr),
                    (gate 0 ''CNOT'' [0, 1], meas_node 9 1, NoAttr),
                    (prep_node 10 1, gate 2 ''RX'' [1], NoAttr),
                    (prep_node 11 0, gate 3 ''CNOT'' [0, 1], NoAttr),
                    (prep_node 12 1, gate 3 ''CNOT'' [0, 1], NoAttr),
                    (meas_node 8 0, prep_node 11 0, PairAttr (meas_node 8 0) (prep_node 11 0)),
                    (meas_node 9 1, prep_node 12 1, PairAttr (meas_node 9 1) (prep_node 12 1))]\<rparr>,
          13) \<and>
   map_sum id (\<lambda>(g', h). map (spliced (tape_to_graph both_tape) both_cut g') [0, 1])
     (remove_wire_cut_node both_cut (tape_to_graph both_tape, 4)) = Inr [True, False]"
  by (simp only: both_resolved, simp only: both_graph)
    (simp add: spliced_def succ_on_def pred_on_def has_edge_def)

section \<open>The transform\<close>











lemma cut_circuit_InrI:
  assumes "to_graph P tp = Inr g"
    and "resolve_cuts (operations tp) (g, heap) = Inr gh"
    and "(case method of None \<Rightarrow> Inr gh | Some m \<Rightarrow> place P gh m kwargs) = Inr gh'"
    and "fragment P (fst gh') = Inr (fragments, cg)"
    and "map_result (to_tape P) fragments = Inr fragment_tapes"
    and "map_result (expand P) fragment_tapes = Inr configurations"
  shows "cut_circuit P tp method kwargs heap =
           Inr (concat configurations,
                \<lparr>shapes = map length configurations, communication_graph = cg\<rparr>)"
  using assms unfolding cut_circuit_def by simp

subsection \<open>The transform on the chain\<close>

lemma chain_resolve_cuts:
  "resolve_cuts (operations chain_tape) (tape_to_graph chain_tape, 3) = Inr (chain_cut_graph, 7)"
  by code_simp

lemma chain_fragment_graph:
  "fragment_graph chain_cut_graph = (chain_fragments, chain_communication)"
  by (simp add: fragment_graph_def subgraph_def fragment_of_def component_def grow_def
      touches_def is_pair_def Let_def)

lemma chain_to_tapes:
  "map_result graph_to_tape chain_fragments = Inr chain_fragment_tapes"
  by code_simp

lemma chain_expanded:
  "map_result (\<lambda>t. Inr (expand_fragment_tapes [''Z'', ''X''] resolve_basis t)) chain_fragment_tapes
     = Inr chain_configurations"
  by code_simp



subsection \<open>What the transform returns\<close>




text \<open>
  C9. Whenever the stages return, the transform returns a pair: the Programs of all
  fragments' configurations, flattened, and the partial application of \<^verbatim>\<open>contract\<close> that
  holds the per-fragment configuration counts and the communication graph. The counts add
  up to the number of emitted Programs, so a result sequence aligned with the Programs is
  what the counts expect, and calling the partial application with the results is calling
  \<^verbatim>\<open>contract\<close> with the results, these counts and this graph.
\<close>

theorem cut_circuit_output_contract:
  assumes "to_graph P tp = Inr g"
    and "resolve_cuts (operations tp) (g, heap) = Inr gh"
    and "(case method of None \<Rightarrow> Inr gh | Some m \<Rightarrow> place P gh m kwargs) = Inr gh'"
    and "fragment P (fst gh') = Inr (fragments, cg)"
    and "map_result (to_tape P) fragments = Inr fragment_tapes"
    and "map_result (expand P) fragment_tapes = Inr configurations"
  shows "\<exists>tapes post.
           cut_circuit P tp method kwargs heap = Inr (tapes, post) \<and>
           tapes = concat configurations \<and>
           shapes post = map length configurations \<and>
           communication_graph post = cg \<and>
           length tapes = sum_list (shapes post) \<and>
           (\<forall>contract results.
              call_partial contract post results
                = contract results (map length configurations) cg)"
proof -
  let ?post = "\<lparr>shapes = map length configurations, communication_graph = cg\<rparr>"
  have "cut_circuit P tp method kwargs heap = Inr (concat configurations, ?post)"
    using assms by (rule cut_circuit_InrI)
  moreover have "length (concat configurations) = sum_list (shapes ?post)"
    by (simp add: length_concat)
  moreover have "call_partial contract ?post results
      = contract results (map length configurations) cg" for contract results
    by (simp add: call_partial_def)
  ultimately show ?thesis by auto
qed

theorem cut_circuit_output_contract_witness:
  "\<exists>tapes post.
     cut_circuit (spec_pipeline [''Z'', ''X'']) chain_tape None [] 3 = Inr (tapes, post) \<and>
     tapes = concat chain_configurations \<and>
     shapes post = map length chain_configurations \<and>
     communication_graph post = chain_communication \<and>
     length tapes = sum_list (shapes post) \<and>
     (\<forall>contract results.
        call_partial contract post results
          = contract results (map length chain_configurations) chain_communication)"
proof (rule cut_circuit_output_contract)
  show "to_graph (spec_pipeline [''Z'', ''X'']) chain_tape = Inr (tape_to_graph chain_tape)"
    by (simp add: spec_pipeline_def)
  show "resolve_cuts (operations chain_tape) (tape_to_graph chain_tape, 3)
      = Inr (chain_cut_graph, 7)"
    by (rule chain_resolve_cuts)
  show "(case None of None \<Rightarrow> Inr (chain_cut_graph, 7)
         | Some m \<Rightarrow> place (spec_pipeline [''Z'', ''X'']) (chain_cut_graph, 7) m [])
      = Inr (chain_cut_graph, 7)"
    by simp
  show "fragment (spec_pipeline [''Z'', ''X'']) (fst (chain_cut_graph, 7))
      = Inr (chain_fragments, chain_communication)"
    by (simp only: spec_pipeline_def pipeline.simps fst_conv chain_fragment_graph)
  show "map_result (to_tape (spec_pipeline [''Z'', ''X''])) chain_fragments
      = Inr chain_fragment_tapes"
    by (simp only: spec_pipeline_def pipeline.simps chain_to_tapes)
  show "map_result (expand (spec_pipeline [''Z'', ''X''])) chain_fragment_tapes
      = Inr chain_configurations"
    by (simp only: spec_pipeline_def pipeline.simps chain_expanded)
qed



end
